theory Spec2Isabelle
  imports Complex_Main "HOL-Library.Sublist"
begin

section \<open>The user profile store of the health tracker (src/contexts/user-context.tsx)\<close>

text \<open>
  The module keeps one user profile in the state of a React component (\<open>UserProvider\<close>),
  loads it from \<open>localStorage\<close> when the component mounts, writes it back when it has
  changed, and hands out six operations that replace the profile by an updated copy. The
  embedding follows the source:
  \<^item> every interface is a record;
  \<^item> an optional field (\<open>endDate?\<close>, \<open>notes?\<close>) is an \<open>option\<close>, \<open>None\<close> when the key is absent;
  \<^item> \<open>Partial<T>\<close> is a second record whose fields are all options;
  \<^item> \<open>UserProfile | null\<close> is \<open>UserProfile option\<close>;
  \<^item> \<open>useState\<close> is a field of an explicit state record, and \<open>setUser\<close> returns the
    updated state;
  \<^item> a \<open>throw\<close> is the left summand of a sum type.

  The source's \<open>number\<close> is an IEEE double. The module only stores and copies numbers and
  never computes with them, so the type of numbers is the type parameter \<open>'n\<close> of the
  records: every theorem holds whatever represents a number. Only the serialization
  depends on what a number is; there the parameter is the type \<open>number\<close> of doubles.
  Fields called \<open>id\<close>, \<open>type\<close>, \<open>unit\<close>, \<open>date\<close>, \<open>time\<close>, \<open>value\<close> and \<open>notes\<close> clash between
  interfaces or with Isabelle names; they carry the interface as a suffix here.
\<close>

subsection \<open>Data model (lines 5-55)\<close>

record Medication =
  id_med :: string
  name :: string
  dosage :: string
  frequency :: string
  startDate :: string
  endDate :: "string option"
  instructions :: string

record 'n HealthGoal =
  id_goal :: string
  type_goal :: string
  target :: 'n
  current :: 'n
  unit_goal :: string

record 'n VitalSign =
  id_vital :: string
  type_vital :: string
  value_vital :: 'n
  unit_vital :: string
  date_vital :: string
  time_vital :: string

record Appointment =
  id_appt :: string
  doctorName :: string
  specialty :: string
  date_appt :: string
  time_appt :: string
  type_appt :: string
  status :: string
  notes_appt :: "string option"

record 'n UserProfile =
  firstName :: string
  lastName :: string
  email :: string
  phone :: string
  dateOfBirth :: string
  gender :: string
  address :: string
  emergencyContact :: string
  medicalConditions :: string
  allergies :: string
  bloodType :: string
  height :: string
  weight :: string
  language :: string
  notifications :: bool
  currentMedications :: "Medication list"
  healthGoals :: "'n HealthGoal list"
  vitalSigns :: "'n VitalSign list"
  appointments :: "Appointment list"

text \<open>
  \<open>Partial<UserProfile["healthGoals"][0]>\<close>: a field is \<open>None\<close> when the patch has no such
  key, and \<open>Some v\<close> when the patch has the key with a value \<open>v\<close> of the field's type.
\<close>

record 'n HealthGoal_partial =
  id_goal_opt :: "string option"
  type_goal_opt :: "string option"
  target_opt :: "'n option"
  current_opt :: "'n option"
  unit_goal_opt :: "string option"

text \<open>\<open>Partial<UserProfile>\<close>.\<close>

record 'n UserProfile_partial =
  firstName_opt :: "string option"
  lastName_opt :: "string option"
  email_opt :: "string option"
  phone_opt :: "string option"
  dateOfBirth_opt :: "string option"
  gender_opt :: "string option"
  address_opt :: "string option"
  emergencyContact_opt :: "string option"
  medicalConditions_opt :: "string option"
  allergies_opt :: "string option"
  bloodType_opt :: "string option"
  height_opt :: "string option"
  weight_opt :: "string option"
  language_opt :: "string option"
  notifications_opt :: "bool option"
  currentMedications_opt :: "Medication list option"
  healthGoals_opt :: "'n HealthGoal list option"
  vitalSigns_opt :: "'n VitalSign list option"
  appointments_opt :: "Appointment list option"

subsection \<open>Exceptions and the component's state\<close>

datatype exn = SyntaxError | Error string

text \<open>
  The two \<open>useState\<close> cells of \<open>UserProvider\<close> (lines 128-129), together with the two
  parts of the environment that its effects touch: \<open>localStorage\<close> and the console.
\<close>

record 'n store =
  user :: "'n UserProfile option"
  isLoading :: bool
  localStorage :: "string \<rightharpoonup> string"
  console :: "(string \<times> exn) list"

text \<open>The state before the first effect has run: \<open>useState(null)\<close>, \<open>useState(true)\<close>.\<close>

definition mounted :: "(string \<rightharpoonup> string) \<Rightarrow> 'n store" where
  "mounted ls = \<lparr>user = None, isLoading = True, localStorage = ls, console = []\<rparr>"

text \<open>\<open>setUser\<close> with an updater function, \<open>setUser\<close> with a value, and \<open>setIsLoading\<close>.\<close>

definition setUser :: "('n UserProfile option \<Rightarrow> 'n UserProfile option) \<Rightarrow> 'n store \<Rightarrow> 'n store" where
  "setUser f s = s\<lparr>user := f (user s)\<rparr>"

definition setUser_value :: "'n UserProfile option \<Rightarrow> 'n store \<Rightarrow> 'n store" where
  "setUser_value v s = s\<lparr>user := v\<rparr>"

definition setIsLoading :: "bool \<Rightarrow> 'n store \<Rightarrow> 'n store" where
  "setIsLoading b s = s\<lparr>isLoading := b\<rparr>"

subsection \<open>Object spread\<close>

text \<open>
  In \<open>{ ...a, ...b }\<close> a key of \<open>b\<close> overrides the same key of \<open>a\<close>, and a key that
  \<open>b\<close> lacks keeps the value it has in \<open>a\<close>. \<open>override u v\<close> is one key of that object.
\<close>

definition override :: "'a option \<Rightarrow> 'a \<Rightarrow> 'a" where
  "override u v = (case u of None \<Rightarrow> v | Some w \<Rightarrow> w)"

text \<open>\<open>{ ...goal, ...updates }\<close> (line 207).\<close>

definition spread_HealthGoal :: "'n HealthGoal \<Rightarrow> 'n HealthGoal_partial \<Rightarrow> 'n HealthGoal" where
  "spread_HealthGoal goal updates =
     \<lparr>id_goal = override (id_goal_opt updates) (id_goal goal),
      type_goal = override (type_goal_opt updates) (type_goal goal),
      target = override (target_opt updates) (target goal),
      current = override (current_opt updates) (current goal),
      unit_goal = override (unit_goal_opt updates) (unit_goal goal)\<rparr>"

text \<open>\<open>{ ...prev, ...updates }\<close> (line 155).\<close>

definition spread_UserProfile :: "'n UserProfile \<Rightarrow> 'n UserProfile_partial \<Rightarrow> 'n UserProfile" where
  "spread_UserProfile prev updates =
     \<lparr>firstName = override (firstName_opt updates) (firstName prev),
      lastName = override (lastName_opt updates) (lastName prev),
      email = override (email_opt updates) (email prev),
      phone = override (phone_opt updates) (phone prev),
      dateOfBirth = override (dateOfBirth_opt updates) (dateOfBirth prev),
      gender = override (gender_opt updates) (gender prev),
      address = override (address_opt updates) (address prev),
      emergencyContact = override (emergencyContact_opt updates) (emergencyContact prev),
      medicalConditions = override (medicalConditions_opt updates) (medicalConditions prev),
      allergies = override (allergies_opt updates) (allergies prev),
      bloodType = override (bloodType_opt updates) (bloodType prev),
      height = override (height_opt updates) (height prev),
      weight = override (weight_opt updates) (weight prev),
      language = override (language_opt updates) (language prev),
      notifications = override (notifications_opt updates) (notifications prev),
      currentMedications = override (currentMedications_opt updates) (currentMedications prev),
      healthGoals = override (healthGoals_opt updates) (healthGoals prev),
      vitalSigns = override (vitalSigns_opt updates) (vitalSigns prev),
      appointments = override (appointments_opt updates) (appointments prev)\<rparr>"

subsection \<open>The six operations (lines 154-211)\<close>

definition updateUser :: "'n UserProfile_partial \<Rightarrow> 'n store \<Rightarrow> 'n store" where
  "updateUser updates =
     setUser (\<lambda>prev. case prev of
        Some p \<Rightarrow> Some (spread_UserProfile p updates)
      | None \<Rightarrow> None)"

definition addMedication :: "Medication \<Rightarrow> 'n store \<Rightarrow> 'n store" where
  "addMedication medication =
     setUser (\<lambda>prev. case prev of
        Some p \<Rightarrow> Some (p\<lparr>currentMedications := currentMedications p @ [medication]\<rparr>)
      | None \<Rightarrow> None)"

definition removeMedication :: "string \<Rightarrow> 'n store \<Rightarrow> 'n store" where
  "removeMedication medicationId =
     setUser (\<lambda>prev. case prev of
        Some p \<Rightarrow> Some (p\<lparr>currentMedications :=
                    filter (\<lambda>med. id_med med \<noteq> medicationId) (currentMedications p)\<rparr>)
      | None \<Rightarrow> None)"

definition addVitalSign :: "'n VitalSign \<Rightarrow> 'n store \<Rightarrow> 'n store" where
  "addVitalSign vitalSign =
     setUser (\<lambda>prev. case prev of
        Some p \<Rightarrow> Some (p\<lparr>vitalSigns := vitalSigns p @ [vitalSign]\<rparr>)
      | None \<Rightarrow> None)"

definition addAppointment :: "Appointment \<Rightarrow> 'n store \<Rightarrow> 'n store" where
  "addAppointment appointment =
     setUser (\<lambda>prev. case prev of
        Some p \<Rightarrow> Some (p\<lparr>appointments := appointments p @ [appointment]\<rparr>)
      | None \<Rightarrow> None)"

definition updateHealthGoal :: "string \<Rightarrow> 'n HealthGoal_partial \<Rightarrow> 'n store \<Rightarrow> 'n store" where
  "updateHealthGoal goalId updates =
     setUser (\<lambda>prev. case prev of
        Some p \<Rightarrow> Some (p\<lparr>healthGoals :=
                    map (\<lambda>goal. if id_goal goal = goalId then spread_HealthGoal goal updates else goal)
                      (healthGoals p)\<rparr>)
      | None \<Rightarrow> None)"

subsection \<open>The built-in profile (lines 70-125)\<close>

text \<open>
  The numbers of the built-in profile are numerals, so it exists for every type of
  numbers that has numerals. The value of \<open>height\<close> is the five characters
  \<open>5\<close>, apostrophe, \<open>1\<close>, \<open>0\<close>, double quote; the two quotation marks are given by code.
\<close>

definition defaultUser :: "('n::numeral) UserProfile" where
  "defaultUser =
     \<lparr>firstName = ''Alex'',
      lastName = ''Johnson'',
      email = ''alex.johnson@email.com'',
      phone = ''+1 (555) 123-4567'',
      dateOfBirth = ''1990-05-15'',
      gender = ''male'',
      address = ''123 Health St, Wellness City, WC 12345'',
      emergencyContact = ''Jane Johnson - +1 (555) 987-6543'',
      medicalConditions = ''Hypertension, Type 2 Diabetes'',
      allergies = ''Penicillin, Shellfish'',
      bloodType = ''A+'',
      height = [CHR ''5'', CHR 0x27, CHR ''1'', CHR ''0'', CHR 0x22],
      weight = ''175 lbs'',
      language = ''en'',
      notifications = True,
      currentMedications =
        [\<lparr>id_med = ''1'', name = ''Lisinopril'', dosage = ''10mg'', frequency = ''Once daily'',
          startDate = ''2024-01-15'', endDate = None,
          instructions = ''Take with food in the morning''\<rparr>,
         \<lparr>id_med = ''2'', name = ''Metformin'', dosage = ''500mg'', frequency = ''Twice daily'',
          startDate = ''2024-01-15'', endDate = None,
          instructions = ''Take with meals''\<rparr>],
      healthGoals =
        [\<lparr>id_goal = ''1'', type_goal = ''water'', target = 8, current = 5, unit_goal = ''glasses''\<rparr>,
         \<lparr>id_goal = ''2'', type_goal = ''steps'', target = 10000, current = 7500, unit_goal = ''steps''\<rparr>,
         \<lparr>id_goal = ''3'', type_goal = ''weight'', target = 170, current = 175, unit_goal = ''lbs''\<rparr>],
      vitalSigns =
        [\<lparr>id_vital = ''1'', type_vital = ''blood_pressure'', value_vital = 125, unit_vital = ''mmHg'',
          date_vital = ''2024-01-20'', time_vital = ''08:00''\<rparr>,
         \<lparr>id_vital = ''2'', type_vital = ''heart_rate'', value_vital = 72, unit_vital = ''bpm'',
          date_vital = ''2024-01-20'', time_vital = ''08:00''\<rparr>,
         \<lparr>id_vital = ''3'', type_vital = ''blood_sugar'', value_vital = 110, unit_vital = ''mg/dL'',
          date_vital = ''2024-01-20'', time_vital = ''08:00''\<rparr>],
      appointments =
        [\<lparr>id_appt = ''1'', doctorName = ''Dr. Sarah Wilson'', specialty = ''Cardiologist'',
          date_appt = ''2024-01-25'', time_appt = ''10:00 AM'', type_appt = ''Follow-up'',
          status = ''scheduled'', notes_appt = None\<rparr>]\<rparr>"

subsection \<open>The loading effect (lines 131-145)\<close>

text \<open>
  \<open>JSON.parse\<close> belongs to the JavaScript runtime, not to the module, so it is the
  parameter \<open>JSON_parse\<close> of the effect: \<open>Inl e\<close> when it throws \<open>e\<close>, \<open>Inr v\<close> when it
  returns \<open>v\<close>. The source gives what it returns to \<open>setUser\<close> unchecked, at the static
  type \<open>UserProfile | null\<close> of the state, and the parameter has that type.

  \<open>try_catch\<close> is the \<open>try\<close> statement: the handler runs when the body has thrown.
  \<open>if (savedUser)\<close> is false for \<open>null\<close> (no such key) and for the empty string.
\<close>

definition try_catch :: "(exn + 'a) \<Rightarrow> (exn \<Rightarrow> exn + 'a) \<Rightarrow> exn + 'a" where
  "try_catch body handler = (case body of Inl e \<Rightarrow> handler e | Inr x \<Rightarrow> Inr x)"

definition console_error :: "string \<Rightarrow> exn \<Rightarrow> 'n store \<Rightarrow> 'n store" where
  "console_error msg e s = s\<lparr>console := console s @ [(msg, e)]\<rparr>"

definition loadUser ::
  "(string \<Rightarrow> exn + ('n::numeral) UserProfile option) \<Rightarrow> 'n store \<Rightarrow> exn + 'n store" where
  "loadUser JSON_parse s =
     (let savedUser = localStorage s ''healthTracker_user'';
          r = (case savedUser of
                 Some str \<Rightarrow>
                   if str \<noteq> [] then
                     try_catch
                       (case JSON_parse str of
                          Inl e \<Rightarrow> Inl e
                        | Inr v \<Rightarrow> Inr (setUser_value v s))
                       (\<lambda>error. Inr (setUser_value (Some defaultUser)
                                       (console_error ''Error loading user data:'' error s)))
                   else Inr (setUser_value (Some defaultUser) s)
               | None \<Rightarrow> Inr (setUser_value (Some defaultUser) s))
      in case r of
           Inl e \<Rightarrow> Inl e
         | Inr s' \<Rightarrow> Inr (setIsLoading False s'))"

subsection \<open>The saving effect (lines 147-152)\<close>

text \<open>
  \<open>if (user && !isLoading) localStorage.setItem("healthTracker_user", JSON.stringify(user))\<close>.
  \<open>JSON.stringify\<close> is a parameter, as \<open>JSON.parse\<close> is for the loading effect, and
  \<open>setItem\<close> is taken to succeed.
\<close>

definition saveUser :: "('n UserProfile \<Rightarrow> string) \<Rightarrow> 'n store \<Rightarrow> 'n store" where
  "saveUser JSON_stringify s =
     (case user s of
        Some u \<Rightarrow>
          if \<not> isLoading s
          then s\<lparr>localStorage := (localStorage s)(''healthTracker_user'' \<mapsto> JSON_stringify u)\<rparr>
          else s
      | None \<Rightarrow> s)"

subsection \<open>The context and its accessor (lines 57-68, 213-237)\<close>

text \<open>
  The value that \<open>UserProvider\<close> hands to the components below it: the profile, the
  loading flag and the six operations, each operation a transformer of the state.
\<close>

record 'n UserContextType =
  user_ctx :: "'n UserProfile option"
  updateUser_ctx :: "'n UserProfile_partial \<Rightarrow> 'n store \<Rightarrow> 'n store"
  addMedication_ctx :: "Medication \<Rightarrow> 'n store \<Rightarrow> 'n store"
  removeMedication_ctx :: "string \<Rightarrow> 'n store \<Rightarrow> 'n store"
  addVitalSign_ctx :: "'n VitalSign \<Rightarrow> 'n store \<Rightarrow> 'n store"
  addAppointment_ctx :: "Appointment \<Rightarrow> 'n store \<Rightarrow> 'n store"
  updateHealthGoal_ctx :: "string \<Rightarrow> 'n HealthGoal_partial \<Rightarrow> 'n store \<Rightarrow> 'n store"
  isLoading_ctx :: bool

definition UserProvider_value :: "'n store \<Rightarrow> 'n UserContextType" where
  "UserProvider_value s =
     \<lparr>user_ctx = user s,
      updateUser_ctx = updateUser,
      addMedication_ctx = addMedication,
      removeMedication_ctx = removeMedication,
      addVitalSign_ctx = addVitalSign,
      addAppointment_ctx = addAppointment,
      updateHealthGoal_ctx = updateHealthGoal,
      isLoading_ctx = isLoading s\<rparr>"

text \<open>
  React's \<open>useContext\<close>: a component reads the value of the nearest enclosing provider of
  the context, and the default given to \<open>createContext\<close> when no provider encloses it.
  \<open>providers\<close> lists the values of the enclosing providers, the nearest first. The default
  of \<open>UserContext\<close> is \<open>undefined\<close> (line 68), which is \<open>None\<close>.
\<close>

definition useContext :: "'c \<Rightarrow> 'c list \<Rightarrow> 'c" where
  "useContext defaultValue providers = (case providers of [] \<Rightarrow> defaultValue | v # _ \<Rightarrow> v)"

definition useUser :: "'n UserContextType option list \<Rightarrow> exn + 'n UserContextType" where
  "useUser providers =
     (let context = useContext None providers
      in case context of
           None \<Rightarrow> Inl (Error ''useUser must be used within a UserProvider'')
         | Some c \<Rightarrow> Inr c)"

subsection \<open>\<open>JSON.stringify\<close> and \<open>JSON.parse\<close>\<close>

text \<open>
  The saving effect stores \<open>JSON.stringify(user)\<close> (line 150) and the loading effect gives
  \<open>JSON.parse(savedUser)\<close> to \<open>setUser\<close> (line 136). Both functions belong to the
  JavaScript runtime and are not defined in the module.

  Modelled from the library's documentation (ECMA-262, \<open>JSON.stringify\<close> and
  \<open>JSON.parse\<close>): the part of the two functions that decides which value comes back.
  \<open>JSON.stringify\<close> first turns the value into a JSON document (\<open>SerializeJSONProperty\<close>)
  and spells the document as text; \<open>JSON.parse\<close> reads a text as a document and builds
  the value of the document. How a document is spelled (the digits of a number, the
  escapes of a string) is not modelled: the spelling is the parameter \<open>JSON_text\<close> and the
  reading of a text the parameter \<open>JSON_read\<close>.

  \<^item> \<open>number\<close> is an IEEE double: a finite value, given by the real number it is
    (positive zero is \<open>Finite 0\<close>; not every real is a double, which no statement below
    relies on), negative zero, \<open>NaN\<close> and the two infinities.
  \<^item> \<open>jsvalue\<close> has the values that a profile is made of. An object is the list of its
    own properties in the order of their creation; no property name used here is an array
    index, so that is the order in which \<open>JSON.stringify\<close> writes them.
  \<^item> \<open>json\<close> is a JSON document; \<open>JNum r\<close> is a numeric literal that denotes \<open>r\<close>,
    and \<open>JObj\<close> has the members of an object, one for each name.
\<close>

datatype number = Finite real | NegativeZero | NaN | PositiveInfinity | NegativeInfinity














subsection \<open>Predicates used to state the properties\<close>

text \<open>
  \<open>patched u before after\<close>: a field whose key is in the patch (\<open>u = Some v\<close>) has the
  patch's value afterwards, and a field whose key is not in the patch has the value it had.
\<close>

definition patched :: "'a option \<Rightarrow> 'a \<Rightarrow> 'a \<Rightarrow> bool" where
  "patched u before after = (case u of None \<Rightarrow> after = before | Some v \<Rightarrow> after = v)"

text \<open>The fifteen fields of a profile that are not sequences are the same in both profiles.\<close>

definition scalars_unchanged :: "'n UserProfile \<Rightarrow> 'n UserProfile \<Rightarrow> bool" where
  "scalars_unchanged p p' \<longleftrightarrow>
     firstName p' = firstName p \<and> lastName p' = lastName p \<and> email p' = email p \<and>
     phone p' = phone p \<and> dateOfBirth p' = dateOfBirth p \<and> gender p' = gender p \<and>
     address p' = address p \<and> emergencyContact p' = emergencyContact p \<and>
     medicalConditions p' = medicalConditions p \<and> allergies p' = allergies p \<and>
     bloodType p' = bloodType p \<and> height p' = height p \<and> weight p' = weight p \<and>
     language p' = language p \<and> notifications p' = notifications p"





subsection \<open>Sample values\<close>

text \<open>
  The patch \<open>{}\<close>, a state whose loading has finished with profile \<open>p\<close>, and records and
  patches at which the theorems below are evaluated. \<open>twins\<close> is the built-in profile with
  two health goals that share the id \<open>1\<close>.
\<close>

definition no_updates :: "'n UserProfile_partial" where
  "no_updates =
     \<lparr>firstName_opt = None, lastName_opt = None, email_opt = None, phone_opt = None,
      dateOfBirth_opt = None, gender_opt = None, address_opt = None,
      emergencyContact_opt = None, medicalConditions_opt = None, allergies_opt = None,
      bloodType_opt = None, height_opt = None, weight_opt = None, language_opt = None,
      notifications_opt = None, currentMedications_opt = None, healthGoals_opt = None,
      vitalSigns_opt = None, appointments_opt = None\<rparr>"

definition ready :: "'n UserProfile \<Rightarrow> 'n store" where
  "ready p = \<lparr>user = Some p, isLoading = False, localStorage = Map.empty, console = []\<rparr>"

definition aspirin :: Medication where
  "aspirin = \<lparr>id_med = ''3'', name = ''Aspirin'', dosage = ''81mg'', frequency = ''Once daily'',
     startDate = ''2024-02-01'', endDate = Some ''2024-03-01'', instructions = ''After breakfast''\<rparr>"

definition temperature :: "real VitalSign" where
  "temperature = \<lparr>id_vital = ''4'', type_vital = ''temperature'', value_vital = 98.6,
     unit_vital = ''F'', date_vital = ''2024-01-21'', time_vital = ''07:30''\<rparr>"

definition pulse :: "real VitalSign" where
  "pulse = \<lparr>id_vital = ''5'', type_vital = ''heart_rate'', value_vital = 70,
     unit_vital = ''bpm'', date_vital = ''2024-01-21'', time_vital = ''07:35''\<rparr>"

definition checkup :: Appointment where
  "checkup = \<lparr>id_appt = ''2'', doctorName = ''Dr. Lee'', specialty = ''General'',
     date_appt = ''2024-02-10'', time_appt = ''09:00 AM'', type_appt = ''Check-up'',
     status = ''scheduled'', notes_appt = Some ''Fasting''\<rparr>"

definition progress :: "real HealthGoal_partial" where
  "progress = \<lparr>id_goal_opt = None, type_goal_opt = None, target_opt = None,
     current_opt = Some 5, unit_goal_opt = None\<rparr>"

definition renumber :: "real HealthGoal_partial" where
  "renumber = \<lparr>id_goal_opt = Some ''9'', type_goal_opt = None, target_opt = None,
     current_opt = Some 6, unit_goal_opt = None\<rparr>"

definition twins :: "real UserProfile" where
  "twins = defaultUser\<lparr>healthGoals :=
     [\<lparr>id_goal = ''1'', type_goal = ''water'', target = 8, current = 5, unit_goal = ''glasses''\<rparr>,
      \<lparr>id_goal = ''2'', type_goal = ''steps'', target = 10000, current = 7500, unit_goal = ''steps''\<rparr>,
      \<lparr>id_goal = ''1'', type_goal = ''sleep'', target = 8, current = 7, unit_goal = ''hours''\<rparr>]\<rparr>"






section \<open>Auxiliary facts\<close>

lemma patched_override: "patched u v (override u v)"
  by (cases u) (simp_all add: patched_def override_def)

lemma count_list_filter:
  "count_list (filter P xs) x = (if P x then count_list xs x else 0)"
  by (induction xs) auto

lemma removeMedication_Some:
  "user s = Some p \<Longrightarrow>
   removeMedication i s =
     s\<lparr>user := Some (p\<lparr>currentMedications := filter (\<lambda>med. id_med med \<noteq> i) (currentMedications p)\<rparr>)\<rparr>"
  by (simp add: removeMedication_def setUser_def)

lemma updateHealthGoal_Some:
  "user s = Some p \<Longrightarrow>
   updateHealthGoal i u s =
     s\<lparr>user := Some (p\<lparr>healthGoals :=
        map (\<lambda>goal. if id_goal goal = i then spread_HealthGoal goal u else goal) (healthGoals p)\<rparr>)\<rparr>"
  by (simp add: updateHealthGoal_def setUser_def)

lemma map_unmatched:
  "\<forall>x\<in>set xs. \<not> P x \<Longrightarrow> map (\<lambda>x. if P x then f x else x) xs = xs"
  by (induction xs) simp_all

lemma store_user_same: "user s = Some p \<Longrightarrow> s\<lparr>user := Some p\<rparr> = s"
  by (cases s) simp

lemma addVitalSign_Some:
  "user s = Some p \<Longrightarrow>
   addVitalSign v s = s\<lparr>user := Some (p\<lparr>vitalSigns := vitalSigns p @ [v]\<rparr>)\<rparr>"
  by (simp add: addVitalSign_def setUser_def)

lemma addMedication_Some:
  "user s = Some p \<Longrightarrow>
   addMedication m s = s\<lparr>user := Some (p\<lparr>currentMedications := currentMedications p @ [m]\<rparr>)\<rparr>"
  by (simp add: addMedication_def setUser_def)

lemma addAppointment_Some:
  "user s = Some p \<Longrightarrow>
   addAppointment a s = s\<lparr>user := Some (p\<lparr>appointments := appointments p @ [a]\<rparr>)\<rparr>"
  by (simp add: addAppointment_def setUser_def)

lemma scalars_unchanged_currentMedications: "scalars_unchanged p (p\<lparr>currentMedications := xs\<rparr>)"
  by (simp add: scalars_unchanged_def)

lemma scalars_unchanged_healthGoals: "scalars_unchanged p (p\<lparr>healthGoals := xs\<rparr>)"
  by (simp add: scalars_unchanged_def)

lemma scalars_unchanged_vitalSigns: "scalars_unchanged p (p\<lparr>vitalSigns := xs\<rparr>)"
  by (simp add: scalars_unchanged_def)

lemma scalars_unchanged_appointments: "scalars_unchanged p (p\<lparr>appointments := xs\<rparr>)"
  by (simp add: scalars_unchanged_def)












text \<open>
  The two effects in sequence, for any \<open>JSON.stringify\<close> and \<open>JSON.parse\<close>: when the text
  written for \<open>p\<close> is not empty and is parsed as \<open>p\<close>, a component that mounts on the
  storage which the saving effect has left loads \<open>p\<close>.
\<close>

lemma saveUser_loadUser:
  assumes "user s = Some p" and "\<not> isLoading s"
    and "JSON_stringify p \<noteq> []"
    and "JSON_parse (JSON_stringify p) = Inr (Some p)"
  shows "\<exists>s'. loadUser JSON_parse (mounted (localStorage (saveUser JSON_stringify s))) = Inr s'
           \<and> user s' = Some p \<and> \<not> isLoading s'"
  using assms
  by (simp add: saveUser_def loadUser_def mounted_def try_catch_def setUser_value_def
      setIsLoading_def)

section \<open>The properties of the specification\<close>

subsection \<open>C1: a corrupt stored value falls back to the built-in profile\<close>

text \<open>
  C1. When \<open>localStorage\<close> holds a value under the key \<open>healthTracker_user\<close> and
  \<open>JSON.parse\<close> throws on it (the value is not validly serialized), the loading effect
  completes without an exception (its result is \<open>Inr\<close>), the profile it leaves is the
  built-in profile \<open>defaultUser\<close>, and loading is over. This holds from every state and for
  every parser.
\<close>

theorem loadUser_corrupt_fallback:
  assumes "localStorage s ''healthTracker_user'' = Some str"
    and "isl (JSON_parse str)"
  shows "\<exists>s'. loadUser JSON_parse s = Inr s' \<and> user s' = Some defaultUser \<and> \<not> isLoading s'"
proof (cases "str = []")
  case True
  with assms(1) show ?thesis
    by (simp add: loadUser_def setUser_value_def setIsLoading_def)
next
  case False
  from assms(2) obtain e where "JSON_parse str = Inl e"
    by (cases "JSON_parse str") simp_all
  with False assms(1) show ?thesis
    by (simp add: loadUser_def try_catch_def setUser_value_def setIsLoading_def console_error_def)
qed

text \<open>
  The stored text \<open>{oops\<close>, a parser that throws \<open>SyntaxError\<close>, the state of a freshly
  mounted component.
\<close>

theorem loadUser_corrupt_fallback_witness:
  "localStorage (mounted [''healthTracker_user'' \<mapsto> ''{oops'']) ''healthTracker_user'' = Some ''{oops''
   \<and> isl ((\<lambda>_. Inl SyntaxError) ''{oops'' :: exn + real UserProfile option)
   \<and> (\<exists>s'. loadUser (\<lambda>_. Inl SyntaxError) (mounted [''healthTracker_user'' \<mapsto> ''{oops'']) = Inr s'
          \<and> user s' = Some (defaultUser :: real UserProfile) \<and> \<not> isLoading s')"
  using loadUser_corrupt_fallback
    [of "mounted [''healthTracker_user'' \<mapsto> ''{oops'']" "''{oops''" "\<lambda>_. Inl SyntaxError"]
  by (simp add: mounted_def)

subsection \<open>C2: the serialization round trip\<close>




subsection \<open>C3: \<open>updateUser\<close> merges the fields of the patch and no other\<close>

text \<open>
  C3. On a state with profile \<open>p\<close>, \<open>updateUser updates\<close> replaces the profile and touches
  nothing else of the state; each of the nineteen fields of the new profile has the patch's
  value when the patch names the field, and the value it had in \<open>p\<close> when it does not.
\<close>

theorem updateUser_merge:
  assumes "user s = Some p"
  shows "\<exists>p'. updateUser updates s = s\<lparr>user := Some p'\<rparr>
     \<and> patched (firstName_opt updates) (firstName p) (firstName p')
     \<and> patched (lastName_opt updates) (lastName p) (lastName p')
     \<and> patched (email_opt updates) (email p) (email p')
     \<and> patched (phone_opt updates) (phone p) (phone p')
     \<and> patched (dateOfBirth_opt updates) (dateOfBirth p) (dateOfBirth p')
     \<and> patched (gender_opt updates) (gender p) (gender p')
     \<and> patched (address_opt updates) (address p) (address p')
     \<and> patched (emergencyContact_opt updates) (emergencyContact p) (emergencyContact p')
     \<and> patched (medicalConditions_opt updates) (medicalConditions p) (medicalConditions p')
     \<and> patched (allergies_opt updates) (allergies p) (allergies p')
     \<and> patched (bloodType_opt updates) (bloodType p) (bloodType p')
     \<and> patched (height_opt updates) (height p) (height p')
     \<and> patched (weight_opt updates) (weight p) (weight p')
     \<and> patched (language_opt updates) (language p) (language p')
     \<and> patched (notifications_opt updates) (notifications p) (notifications p')
     \<and> patched (currentMedications_opt updates) (currentMedications p) (currentMedications p')
     \<and> patched (healthGoals_opt updates) (healthGoals p) (healthGoals p')
     \<and> patched (vitalSigns_opt updates) (vitalSigns p) (vitalSigns p')
     \<and> patched (appointments_opt updates) (appointments p) (appointments p')"
proof -
  have "updateUser updates s = s\<lparr>user := Some (spread_UserProfile p updates)\<rparr>"
    using assms by (simp add: updateUser_def setUser_def)
  then show ?thesis
    by (intro exI [of _ "spread_UserProfile p updates"] conjI)
       (simp_all add: spread_UserProfile_def patched_override)
qed

text \<open>
  The example of the specification: the patch \<open>{email: "x"}\<close> on the built-in profile gives
  the built-in profile with \<open>email\<close> changed and nothing else.
\<close>

theorem updateUser_merge_witness:
  "user (ready (defaultUser :: real UserProfile)) = Some defaultUser
   \<and> updateUser (no_updates\<lparr>email_opt := Some ''x''\<rparr>) (ready (defaultUser :: real UserProfile))
       = ready (defaultUser\<lparr>email := ''x''\<rparr>)"
proof -
  let ?s = "ready (defaultUser :: real UserProfile)"
  let ?u = "no_updates\<lparr>email_opt := Some ''x''\<rparr> :: real UserProfile_partial"
  have u: "user ?s = Some defaultUser" by (simp add: ready_def)
  from updateUser_merge [OF u, of ?u] obtain p' where
    s: "updateUser ?u ?s = ?s\<lparr>user := Some p'\<rparr>" 
    and f: "patched (firstName_opt ?u) (firstName (defaultUser :: real UserProfile)) (firstName p')"
     "patched (lastName_opt ?u) (lastName (defaultUser :: real UserProfile)) (lastName p')"
     "patched (email_opt ?u) (email (defaultUser :: real UserProfile)) (email p')"
     "patched (phone_opt ?u) (phone (defaultUser :: real UserProfile)) (phone p')"
     "patched (dateOfBirth_opt ?u) (dateOfBirth (defaultUser :: real UserProfile)) (dateOfBirth p')"
     "patched (gender_opt ?u) (gender (defaultUser :: real UserProfile)) (gender p')"
     "patched (address_opt ?u) (address (defaultUser :: real UserProfile)) (address p')"
     "patched (emergencyContact_opt ?u) (emergencyContact (defaultUser :: real UserProfile)) (emergencyContact p')"
     "patched (medicalConditions_opt ?u) (medicalConditions (defaultUser :: real UserProfile)) (medicalConditions p')"
     "patched (allergies_opt ?u) (allergies (defaultUser :: real UserProfile)) (allergies p')"
     "patched (bloodType_opt ?u) (bloodType (defaultUser :: real UserProfile)) (bloodType p')"
     "patched (height_opt ?u) (height (defaultUser :: real UserProfile)) (height p')"
     "patched (weight_opt ?u) (weight (defaultUser :: real UserProfile)) (weight p')"
     "patched (language_opt ?u) (language (defaultUser :: real UserProfile)) (language p')"
     "patched (notifications_opt ?u) (notifications (defaultUser :: real UserProfile)) (notifications p')"
     "patched (currentMedications_opt ?u) (currentMedications (defaultUser :: real UserProfile)) (currentMedications p')"
     "patched (healthGoals_opt ?u) (healthGoals (defaultUser :: real UserProfile)) (healthGoals p')"
     "patched (vitalSigns_opt ?u) (vitalSigns (defaultUser :: real UserProfile)) (vitalSigns p')"
     "patched (appointments_opt ?u) (appointments (defaultUser :: real UserProfile)) (appointments p')"
    by blast
  from f have "p' = defaultUser\<lparr>email := ''x''\<rparr>"
    by (intro UserProfile.equality) (simp_all add: patched_def no_updates_def)
  with s u show ?thesis by (simp add: ready_def)
qed

subsection \<open>C4: \<open>removeMedication\<close> removes the entries with the given id\<close>

text \<open>
  C4. On a state with profile \<open>p\<close>, \<open>removeMedication i\<close> leaves a sequence of medications
  that is a subsequence of the old one (nothing is added, the order is kept), in which no
  record with id \<open>i\<close> occurs and every record with another id occurs as often as before;
  when no entry has id \<open>i\<close> the sequence is the old one.
\<close>

theorem removeMedication_removes:
  assumes "user s = Some p"
  shows "\<exists>p'. removeMedication i s = s\<lparr>user := Some p'\<rparr>
     \<and> subseq (currentMedications p') (currentMedications p)
     \<and> (\<forall>m. count_list (currentMedications p') m =
              (if id_med m = i then 0 else count_list (currentMedications p) m))
     \<and> ((\<forall>m\<in>set (currentMedications p). id_med m \<noteq> i)
          \<longrightarrow> currentMedications p' = currentMedications p)"
proof -
  let ?p' = "p\<lparr>currentMedications := filter (\<lambda>med. id_med med \<noteq> i) (currentMedications p)\<rparr>"
  have "removeMedication i s = s\<lparr>user := Some ?p'\<rparr>"
    using assms by (rule removeMedication_Some)
  moreover have "subseq (currentMedications ?p') (currentMedications p)"
    by simp
  moreover have "\<forall>m. count_list (currentMedications ?p') m =
      (if id_med m = i then 0 else count_list (currentMedications p) m)"
    by (simp add: count_list_filter)
  moreover have "(\<forall>m\<in>set (currentMedications p). id_med m \<noteq> i)
      \<longrightarrow> currentMedications ?p' = currentMedications p"
    by simp
  ultimately show ?thesis by blast
qed

text \<open>
  The built-in profile has the medications with ids \<open>1\<close> and \<open>2\<close>: removing \<open>1\<close> leaves
  exactly the second one, removing \<open>nonexistent\<close> leaves both.
\<close>

theorem removeMedication_removes_witness:
  "user (ready (defaultUser :: real UserProfile)) = Some defaultUser
   \<and> map id_med (currentMedications (defaultUser :: real UserProfile)) = [''1'', ''2'']
   \<and> (\<exists>p'. removeMedication ''1'' (ready (defaultUser :: real UserProfile)) = ready p'
          \<and> currentMedications p' = [currentMedications (defaultUser :: real UserProfile) ! 1])
   \<and> ''nonexistent'' \<notin> set (map id_med (currentMedications (defaultUser :: real UserProfile)))
   \<and> (\<exists>p'. removeMedication ''nonexistent'' (ready (defaultUser :: real UserProfile)) = ready p'
          \<and> currentMedications p' = currentMedications (defaultUser :: real UserProfile))"
proof -
  let ?d = "defaultUser :: real UserProfile"
  have u: "user (ready ?d) = Some ?d" by (simp add: ready_def)
  have ids: "map id_med (currentMedications ?d) = [''1'', ''2'']"
    by (simp add: defaultUser_def)
  have none: "\<forall>m\<in>set (currentMedications ?d). id_med m \<noteq> ''nonexistent''"
    by (simp add: defaultUser_def)
  from removeMedication_removes [OF u, of "''1''"] obtain p1 where
    s1: "removeMedication ''1'' (ready ?d) = (ready ?d)\<lparr>user := Some p1\<rparr>"
    and c1: "\<forall>m. count_list (currentMedications p1) m =
              (if id_med m = ''1'' then 0 else count_list (currentMedications ?d) m)"
    and q1: "subseq (currentMedications p1) (currentMedications ?d)"
    by blast
  from removeMedication_removes [OF u, of "''nonexistent''"] none obtain p2 where
    s2: "removeMedication ''nonexistent'' (ready ?d) = (ready ?d)\<lparr>user := Some p2\<rparr>"
    and e2: "currentMedications p2 = currentMedications ?d"
    by blast
  have "removeMedication ''1'' (ready ?d) = ready p1" using s1 by (simp add: ready_def)
  moreover have "currentMedications p1 = [currentMedications ?d ! 1]"
  proof -
    have "user (removeMedication ''1'' (ready ?d)) = Some p1"
      using s1 by simp
    then have "p1 = ?d\<lparr>currentMedications :=
        filter (\<lambda>med. id_med med \<noteq> ''1'') (currentMedications ?d)\<rparr>"
      by (simp add: removeMedication_Some [OF u])
    then show ?thesis by (simp add: defaultUser_def)
  qed
  moreover have "removeMedication ''nonexistent'' (ready ?d) = ready p2"
    using s2 by (simp add: ready_def)
  moreover have "''nonexistent'' \<notin> set (map id_med (currentMedications ?d))"
    by (simp add: defaultUser_def)
  ultimately show ?thesis using u ids e2 by blast
qed

subsection \<open>C5: \<open>updateHealthGoal\<close> with an id that no goal has changes nothing\<close>

text \<open>
  C5. On a state with profile \<open>p\<close>: when no health goal has id \<open>i\<close>,
  \<open>updateHealthGoal i u\<close> leaves the whole state, and so the whole profile, as it was.
  In every case the new sequence has the old length, an entry whose id is \<open>i\<close> is replaced
  by the spread \<open>{ ...goal, ...updates }\<close> of the entry and the patch, and an entry with
  another id stays as it is.
\<close>

theorem updateHealthGoal_missing_id:
  assumes "user s = Some p"
  shows "((\<forall>g\<in>set (healthGoals p). id_goal g \<noteq> i) \<longrightarrow> updateHealthGoal i u s = s)
     \<and> (\<exists>p'. updateHealthGoal i u s = s\<lparr>user := Some p'\<rparr>
           \<and> length (healthGoals p') = length (healthGoals p)
           \<and> (\<forall>k<length (healthGoals p).
                 healthGoals p' ! k =
                   (if id_goal (healthGoals p ! k) = i
                    then spread_HealthGoal (healthGoals p ! k) u
                    else healthGoals p ! k)))"
proof (intro conjI impI)
  assume "\<forall>g\<in>set (healthGoals p). id_goal g \<noteq> i"
  then have "map (\<lambda>goal. if id_goal goal = i then spread_HealthGoal goal u else goal) (healthGoals p)
      = healthGoals p"
    by (intro map_unmatched) simp
  then show "updateHealthGoal i u s = s"
    using assms by (simp add: updateHealthGoal_Some store_user_same)
next
  let ?p' = "p\<lparr>healthGoals :=
      map (\<lambda>goal. if id_goal goal = i then spread_HealthGoal goal u else goal) (healthGoals p)\<rparr>"
  have "updateHealthGoal i u s = s\<lparr>user := Some ?p'\<rparr>"
    using assms by (rule updateHealthGoal_Some)
  moreover have "length (healthGoals ?p') = length (healthGoals p)"
    by simp
  moreover have "\<forall>k<length (healthGoals p).
      healthGoals ?p' ! k =
        (if id_goal (healthGoals p ! k) = i
         then spread_HealthGoal (healthGoals p ! k) u
         else healthGoals p ! k)"
    by simp
  ultimately show "\<exists>p'. updateHealthGoal i u s = s\<lparr>user := Some p'\<rparr>
      \<and> length (healthGoals p') = length (healthGoals p)
      \<and> (\<forall>k<length (healthGoals p).
            healthGoals p' ! k =
              (if id_goal (healthGoals p ! k) = i
               then spread_HealthGoal (healthGoals p ! k) u
               else healthGoals p ! k))"
    by blast
qed

text \<open>
  On the built-in profile, \<open>updateHealthGoal("999", {current: 5})\<close> changes nothing, and
  \<open>updateHealthGoal("2", {current: 5})\<close> changes the second goal only.
\<close>

theorem updateHealthGoal_missing_id_witness:
  "user (ready (defaultUser :: real UserProfile)) = Some defaultUser
   \<and> ''999'' \<notin> set (map id_goal (healthGoals (defaultUser :: real UserProfile)))
   \<and> updateHealthGoal ''999'' progress (ready defaultUser) = ready defaultUser
   \<and> (\<exists>p'. updateHealthGoal ''2'' progress (ready defaultUser) = ready p'
         \<and> (1::nat) < length (healthGoals (defaultUser :: real UserProfile))
         \<and> healthGoals p' ! 1 =
             \<lparr>id_goal = ''2'', type_goal = ''steps'', target = 10000, current = 5, unit_goal = ''steps''\<rparr>
         \<and> healthGoals p' ! 0 = healthGoals (defaultUser :: real UserProfile) ! 0
         \<and> healthGoals p' ! 2 = healthGoals (defaultUser :: real UserProfile) ! 2)"
proof -
  let ?d = "defaultUser :: real UserProfile"
  have u: "user (ready ?d) = Some ?d" by (simp add: ready_def)
  have none: "\<forall>g\<in>set (healthGoals ?d). id_goal g \<noteq> ''999''"
    by (simp add: defaultUser_def)
  have len: "length (healthGoals ?d) = 3"
    by (simp add: defaultUser_def)
  from updateHealthGoal_missing_id [OF u, of "''999''" progress] none
  have a: "updateHealthGoal ''999'' progress (ready ?d) = ready ?d"
    by blast
  from updateHealthGoal_missing_id [OF u, of "''2''" progress] obtain p' where
    s: "updateHealthGoal ''2'' progress (ready ?d) = (ready ?d)\<lparr>user := Some p'\<rparr>"
    and k: "\<forall>k<length (healthGoals ?d).
          healthGoals p' ! k =
            (if id_goal (healthGoals ?d ! k) = ''2''
             then spread_HealthGoal (healthGoals ?d ! k) progress
             else healthGoals ?d ! k)"
    by blast
  have "updateHealthGoal ''2'' progress (ready ?d) = ready p'"
    using s by (simp add: ready_def)
  moreover from k len have "healthGoals p' ! 1 =
      \<lparr>id_goal = ''2'', type_goal = ''steps'', target = 10000, current = 5, unit_goal = ''steps''\<rparr>"
    by (simp add: defaultUser_def spread_HealthGoal_def progress_def override_def)
  moreover from k len have "healthGoals p' ! 0 = healthGoals ?d ! 0"
    by (simp add: defaultUser_def)
  moreover from k len have "healthGoals p' ! 2 = healthGoals ?d ! 2"
    by (simp add: defaultUser_def)
  moreover have "''999'' \<notin> set (map id_goal (healthGoals ?d))"
    by (simp add: defaultUser_def)
  ultimately show ?thesis using u a len
    by (intro conjI exI [of _ p']) simp_all
qed

subsection \<open>C6: additions are appended in the order of the calls\<close>

text \<open>
  C6. On a state with profile \<open>p\<close>, \<open>addVitalSign v1\<close> makes the vital signs the old
  sequence followed by \<open>v1\<close>, and \<open>addVitalSign v1\<close> followed by \<open>addVitalSign v2\<close> makes
  them the old sequence followed by \<open>v1, v2\<close>. \<open>addMedication\<close> and \<open>addAppointment\<close>
  append to their sequences in the same way.
\<close>

theorem addVitalSign_appends_in_order:
  assumes "user s = Some p"
  shows "(\<exists>p'. addVitalSign v1 s = s\<lparr>user := Some p'\<rparr> \<and> vitalSigns p' = vitalSigns p @ [v1])
     \<and> (\<exists>p''. addVitalSign v2 (addVitalSign v1 s) = s\<lparr>user := Some p''\<rparr>
            \<and> vitalSigns p'' = vitalSigns p @ [v1, v2])
     \<and> (\<exists>p'. addMedication m s = s\<lparr>user := Some p'\<rparr>
            \<and> currentMedications p' = currentMedications p @ [m])
     \<and> (\<exists>p'. addAppointment a s = s\<lparr>user := Some p'\<rparr>
            \<and> appointments p' = appointments p @ [a])"
proof (intro conjI)
  show "\<exists>p'. addVitalSign v1 s = s\<lparr>user := Some p'\<rparr> \<and> vitalSigns p' = vitalSigns p @ [v1]"
    using assms by (intro exI [of _ "p\<lparr>vitalSigns := vitalSigns p @ [v1]\<rparr>"])
      (simp add: addVitalSign_Some)
  show "\<exists>p'. addMedication m s = s\<lparr>user := Some p'\<rparr>
      \<and> currentMedications p' = currentMedications p @ [m]"
    using assms by (intro exI [of _ "p\<lparr>currentMedications := currentMedications p @ [m]\<rparr>"])
      (simp add: addMedication_Some)
  show "\<exists>p'. addAppointment a s = s\<lparr>user := Some p'\<rparr> \<and> appointments p' = appointments p @ [a]"
    using assms by (intro exI [of _ "p\<lparr>appointments := appointments p @ [a]\<rparr>"])
      (simp add: addAppointment_Some)
  let ?p1 = "p\<lparr>vitalSigns := vitalSigns p @ [v1]\<rparr>"
  have 1: "addVitalSign v1 s = s\<lparr>user := Some ?p1\<rparr>"
    using assms by (rule addVitalSign_Some)
  have "user (s\<lparr>user := Some ?p1\<rparr>) = Some ?p1" by simp
  then have "addVitalSign v2 (s\<lparr>user := Some ?p1\<rparr>)
      = s\<lparr>user := Some ?p1\<rparr>\<lparr>user := Some (?p1\<lparr>vitalSigns := vitalSigns ?p1 @ [v2]\<rparr>)\<rparr>"
    by (rule addVitalSign_Some)
  with 1 show "\<exists>p''. addVitalSign v2 (addVitalSign v1 s) = s\<lparr>user := Some p''\<rparr>
      \<and> vitalSigns p'' = vitalSigns p @ [v1, v2]"
    by (intro exI [of _ "?p1\<lparr>vitalSigns := vitalSigns ?p1 @ [v2]\<rparr>"]) simp
qed

text \<open>Two readings added to the three of the built-in profile.\<close>

theorem addVitalSign_appends_in_order_witness:
  "user (ready (defaultUser :: real UserProfile)) = Some defaultUser
   \<and> (\<exists>p''. addVitalSign pulse (addVitalSign temperature (ready defaultUser)) = ready p''
          \<and> map id_vital (vitalSigns p'') = [''1'', ''2'', ''3'', ''4'', ''5'']
          \<and> drop 3 (vitalSigns p'') = [temperature, pulse])"
proof -
  let ?d = "defaultUser :: real UserProfile"
  have u: "user (ready ?d) = Some ?d" by (simp add: ready_def)
  from addVitalSign_appends_in_order [OF u, of temperature pulse] obtain p'' where
    s: "addVitalSign pulse (addVitalSign temperature (ready ?d)) = (ready ?d)\<lparr>user := Some p''\<rparr>"
    and v: "vitalSigns p'' = vitalSigns ?d @ [temperature, pulse]"
    by blast
  have "addVitalSign pulse (addVitalSign temperature (ready ?d)) = ready p''"
    using s by (simp add: ready_def)
  moreover from v have "map id_vital (vitalSigns p'') = [''1'', ''2'', ''3'', ''4'', ''5'']"
    by (simp add: defaultUser_def temperature_def pulse_def)
  moreover from v have "drop 3 (vitalSigns p'') = [temperature, pulse]"
    by (simp add: defaultUser_def)
  ultimately show ?thesis using u
    by (intro conjI exI [of _ p'']) simp_all
qed

subsection \<open>C7: \<open>useUser\<close> outside a provider throws\<close>

text \<open>
  C7. With no enclosing \<open>UserProvider\<close>, \<open>useUser\<close> throws the error
  \<open>useUser must be used within a UserProvider\<close> and returns no value. Directly below a
  \<open>UserProvider\<close> it returns the value of that provider.
\<close>

theorem useUser_outside_provider:
  "useUser [] = Inl (Error ''useUser must be used within a UserProvider'')
   \<and> (\<forall>c. useUser [] \<noteq> Inr c)
   \<and> useUser (Some (UserProvider_value s) # providers) = Inr (UserProvider_value s)"
  by (simp add: useUser_def useContext_def)

subsection \<open>C8: the six operations do nothing while the profile is unset\<close>

text \<open>
  C8. On a state whose profile is \<open>null\<close>, each of \<open>updateUser\<close>, \<open>addMedication\<close>,
  \<open>removeMedication\<close>, \<open>addVitalSign\<close>, \<open>addAppointment\<close> and \<open>updateHealthGoal\<close>
  returns the state as it was, for every argument.
\<close>

theorem mutations_noop_when_unset:
  assumes "user s = None"
  shows "updateUser updates s = s \<and> addMedication m s = s \<and> removeMedication i s = s
     \<and> addVitalSign v s = s \<and> addAppointment a s = s \<and> updateHealthGoal i u s = s"
proof -
  have "s\<lparr>user := None\<rparr> = s" using assms by (cases s) simp
  with assms show ?thesis
    by (simp add: updateUser_def addMedication_def removeMedication_def addVitalSign_def
        addAppointment_def updateHealthGoal_def setUser_def)
qed

text \<open>The state of a freshly mounted component, before the loading effect has run.\<close>

theorem mutations_noop_when_unset_witness:
  "user (mounted Map.empty :: real store) = None
   \<and> updateUser (no_updates\<lparr>email_opt := Some ''x''\<rparr>) (mounted Map.empty :: real store) = mounted Map.empty
   \<and> addMedication aspirin (mounted Map.empty :: real store) = mounted Map.empty
   \<and> removeMedication ''1'' (mounted Map.empty :: real store) = mounted Map.empty
   \<and> addVitalSign temperature (mounted Map.empty) = mounted Map.empty
   \<and> addAppointment checkup (mounted Map.empty :: real store) = mounted Map.empty
   \<and> updateHealthGoal ''1'' progress (mounted Map.empty) = mounted Map.empty"
proof -
  have u: "user (mounted Map.empty :: real store) = None" by (simp add: mounted_def)
  from mutations_noop_when_unset [OF u] u show ?thesis by blast
qed

subsection \<open>C9: an operation on one sequence leaves the rest of the profile alone\<close>

text \<open>
  C9. On a state with profile \<open>p\<close>, each of \<open>addMedication\<close>, \<open>removeMedication\<close>,
  \<open>addVitalSign\<close>, \<open>addAppointment\<close> and \<open>updateHealthGoal\<close> replaces the profile by one
  with the same fifteen scalar fields and the same three sequences other than its own
  (\<open>currentMedications\<close>, \<open>currentMedications\<close>, \<open>vitalSigns\<close>, \<open>appointments\<close>,
  \<open>healthGoals\<close> respectively), and touches nothing else of the state.
\<close>

theorem list_mutations_frame:
  assumes "user s = Some p"
  shows "(\<exists>p'. addMedication m s = s\<lparr>user := Some p'\<rparr> \<and> scalars_unchanged p p'
            \<and> healthGoals p' = healthGoals p \<and> vitalSigns p' = vitalSigns p
            \<and> appointments p' = appointments p)
     \<and> (\<exists>p'. removeMedication i s = s\<lparr>user := Some p'\<rparr> \<and> scalars_unchanged p p'
            \<and> healthGoals p' = healthGoals p \<and> vitalSigns p' = vitalSigns p
            \<and> appointments p' = appointments p)
     \<and> (\<exists>p'. addVitalSign v s = s\<lparr>user := Some p'\<rparr> \<and> scalars_unchanged p p'
            \<and> currentMedications p' = currentMedications p \<and> healthGoals p' = healthGoals p
            \<and> appointments p' = appointments p)
     \<and> (\<exists>p'. addAppointment a s = s\<lparr>user := Some p'\<rparr> \<and> scalars_unchanged p p'
            \<and> currentMedications p' = currentMedications p \<and> healthGoals p' = healthGoals p
            \<and> vitalSigns p' = vitalSigns p)
     \<and> (\<exists>p'. updateHealthGoal j u s = s\<lparr>user := Some p'\<rparr> \<and> scalars_unchanged p p'
            \<and> currentMedications p' = currentMedications p \<and> vitalSigns p' = vitalSigns p
            \<and> appointments p' = appointments p)"
proof (intro conjI)
  show "\<exists>p'. addMedication m s = s\<lparr>user := Some p'\<rparr> \<and> scalars_unchanged p p'
      \<and> healthGoals p' = healthGoals p \<and> vitalSigns p' = vitalSigns p
      \<and> appointments p' = appointments p"
    using assms by (intro exI [of _ "p\<lparr>currentMedications := currentMedications p @ [m]\<rparr>"])
      (simp add: addMedication_Some scalars_unchanged_currentMedications)
  show "\<exists>p'. removeMedication i s = s\<lparr>user := Some p'\<rparr> \<and> scalars_unchanged p p'
      \<and> healthGoals p' = healthGoals p \<and> vitalSigns p' = vitalSigns p
      \<and> appointments p' = appointments p"
    using assms by (intro exI [of _ "p\<lparr>currentMedications :=
        filter (\<lambda>med. id_med med \<noteq> i) (currentMedications p)\<rparr>"])
      (simp add: removeMedication_Some scalars_unchanged_currentMedications)
  show "\<exists>p'. addVitalSign v s = s\<lparr>user := Some p'\<rparr> \<and> scalars_unchanged p p'
      \<and> currentMedications p' = currentMedications p \<and> healthGoals p' = healthGoals p
      \<and> appointments p' = appointments p"
    using assms by (intro exI [of _ "p\<lparr>vitalSigns := vitalSigns p @ [v]\<rparr>"])
      (simp add: addVitalSign_Some scalars_unchanged_vitalSigns)
  show "\<exists>p'. addAppointment a s = s\<lparr>user := Some p'\<rparr> \<and> scalars_unchanged p p'
      \<and> currentMedications p' = currentMedications p \<and> healthGoals p' = healthGoals p
      \<and> vitalSigns p' = vitalSigns p"
    using assms by (intro exI [of _ "p\<lparr>appointments := appointments p @ [a]\<rparr>"])
      (simp add: addAppointment_Some scalars_unchanged_appointments)
  show "\<exists>p'. updateHealthGoal j u s = s\<lparr>user := Some p'\<rparr> \<and> scalars_unchanged p p'
      \<and> currentMedications p' = currentMedications p \<and> vitalSigns p' = vitalSigns p
      \<and> appointments p' = appointments p"
    using assms by (intro exI [of _ "p\<lparr>healthGoals :=
        map (\<lambda>goal. if id_goal goal = j then spread_HealthGoal goal u else goal) (healthGoals p)\<rparr>"])
      (simp add: updateHealthGoal_Some scalars_unchanged_healthGoals)
qed

text \<open>Adding a medication to, and patching a goal of, the built-in profile.\<close>

theorem list_mutations_frame_witness:
  "user (ready (defaultUser :: real UserProfile)) = Some defaultUser
   \<and> (\<exists>p'. addMedication aspirin (ready (defaultUser :: real UserProfile)) = ready p'
         \<and> email p' = ''alex.johnson@email.com'' \<and> notifications p'
         \<and> map id_goal (healthGoals p') = [''1'', ''2'', ''3'']
         \<and> map id_vital (vitalSigns p') = [''1'', ''2'', ''3'']
         \<and> map id_appt (appointments p') = [''1''])
   \<and> (\<exists>p'. updateHealthGoal ''2'' progress (ready defaultUser) = ready p'
         \<and> email p' = ''alex.johnson@email.com'' \<and> notifications p'
         \<and> map id_med (currentMedications p') = [''1'', ''2'']
         \<and> map id_vital (vitalSigns p') = [''1'', ''2'', ''3'']
         \<and> map id_appt (appointments p') = [''1''])"
proof -
  let ?d = "defaultUser :: real UserProfile"
  have u: "user (ready ?d) = Some ?d" by (simp add: ready_def)
  note f = list_mutations_frame [OF u, of aspirin "''1''" temperature checkup "''2''" progress]
  from f obtain p1 where
    s1: "addMedication aspirin (ready ?d) = (ready ?d)\<lparr>user := Some p1\<rparr>"
    and k1: "scalars_unchanged ?d p1" "healthGoals p1 = healthGoals ?d"
      "vitalSigns p1 = vitalSigns ?d" "appointments p1 = appointments ?d"
    by blast
  from f obtain p5 where
    s5: "updateHealthGoal ''2'' progress (ready ?d) = (ready ?d)\<lparr>user := Some p5\<rparr>"
    and k5: "scalars_unchanged ?d p5" "currentMedications p5 = currentMedications ?d"
      "vitalSigns p5 = vitalSigns ?d" "appointments p5 = appointments ?d"
    by blast
  have a: "\<exists>p'. addMedication aspirin (ready ?d) = ready p'
         \<and> email p' = ''alex.johnson@email.com'' \<and> notifications p'
         \<and> map id_goal (healthGoals p') = [''1'', ''2'', ''3'']
         \<and> map id_vital (vitalSigns p') = [''1'', ''2'', ''3'']
         \<and> map id_appt (appointments p') = [''1'']"
    using s1 k1 by (intro exI [of _ p1]) (simp add: ready_def scalars_unchanged_def defaultUser_def)
  have b: "\<exists>p'. updateHealthGoal ''2'' progress (ready ?d) = ready p'
         \<and> email p' = ''alex.johnson@email.com'' \<and> notifications p'
         \<and> map id_med (currentMedications p') = [''1'', ''2'']
         \<and> map id_vital (vitalSigns p') = [''1'', ''2'', ''3'']
         \<and> map id_appt (appointments p') = [''1'']"
    using s5 k5 by (intro exI [of _ p5]) (simp add: ready_def scalars_unchanged_def defaultUser_def)
  from u a b show ?thesis by (intro conjI)
qed

subsection \<open>C10: \<open>updateHealthGoal\<close> patches every goal with the given id\<close>

text \<open>
  C10. On a state with profile \<open>p\<close>, \<open>updateHealthGoal i u\<close> keeps the length of the
  sequence of health goals; at every position whose entry has id \<open>i\<close>, also when several
  entries share that id, each field of the new entry is patched by \<open>u\<close>; at every other
  position the entry is the old one, so the order is kept; and when \<open>u\<close> has an id, every
  entry that had id \<open>i\<close> has the id of \<open>u\<close> afterwards.
\<close>

theorem updateHealthGoal_every_match:
  assumes "user s = Some p"
  shows "\<exists>p'. updateHealthGoal i u s = s\<lparr>user := Some p'\<rparr>
     \<and> length (healthGoals p') = length (healthGoals p)
     \<and> (\<forall>k<length (healthGoals p). id_goal (healthGoals p ! k) = i \<longrightarrow>
            patched (id_goal_opt u) (id_goal (healthGoals p ! k)) (id_goal (healthGoals p' ! k))
          \<and> patched (type_goal_opt u) (type_goal (healthGoals p ! k)) (type_goal (healthGoals p' ! k))
          \<and> patched (target_opt u) (target (healthGoals p ! k)) (target (healthGoals p' ! k))
          \<and> patched (current_opt u) (current (healthGoals p ! k)) (current (healthGoals p' ! k))
          \<and> patched (unit_goal_opt u) (unit_goal (healthGoals p ! k)) (unit_goal (healthGoals p' ! k)))
     \<and> (\<forall>k<length (healthGoals p). id_goal (healthGoals p ! k) \<noteq> i \<longrightarrow>
            healthGoals p' ! k = healthGoals p ! k)
     \<and> (\<forall>j. id_goal_opt u = Some j \<longrightarrow>
            (\<forall>k<length (healthGoals p). id_goal (healthGoals p ! k) = i \<longrightarrow>
               id_goal (healthGoals p' ! k) = j))"
proof -
  let ?f = "\<lambda>goal. if id_goal goal = i then spread_HealthGoal goal u else goal"
  let ?p' = "p\<lparr>healthGoals := map ?f (healthGoals p)\<rparr>"
  have 1: "updateHealthGoal i u s = s\<lparr>user := Some ?p'\<rparr>"
    using assms by (rule updateHealthGoal_Some)
  have 2: "length (healthGoals ?p') = length (healthGoals p)"
    by simp
  have 3: "\<forall>k<length (healthGoals p). id_goal (healthGoals p ! k) = i \<longrightarrow>
            patched (id_goal_opt u) (id_goal (healthGoals p ! k)) (id_goal (healthGoals ?p' ! k))
          \<and> patched (type_goal_opt u) (type_goal (healthGoals p ! k)) (type_goal (healthGoals ?p' ! k))
          \<and> patched (target_opt u) (target (healthGoals p ! k)) (target (healthGoals ?p' ! k))
          \<and> patched (current_opt u) (current (healthGoals p ! k)) (current (healthGoals ?p' ! k))
          \<and> patched (unit_goal_opt u) (unit_goal (healthGoals p ! k)) (unit_goal (healthGoals ?p' ! k))"
    by (simp add: spread_HealthGoal_def patched_override)
  have 4: "\<forall>k<length (healthGoals p). id_goal (healthGoals p ! k) \<noteq> i \<longrightarrow>
            healthGoals ?p' ! k = healthGoals p ! k"
    by simp
  have 5: "\<forall>j. id_goal_opt u = Some j \<longrightarrow>
            (\<forall>k<length (healthGoals p). id_goal (healthGoals p ! k) = i \<longrightarrow>
               id_goal (healthGoals ?p' ! k) = j)"
    by (simp add: spread_HealthGoal_def override_def)
  from 1 2 3 4 5 show ?thesis
    by (intro exI [of _ ?p'] conjI)
qed

text \<open>
  On \<open>twins\<close> the patch \<open>{id: "9", current: 6}\<close> for id \<open>1\<close> changes the first and the
  third goal, both of which get the id \<open>9\<close>, and leaves the second.
\<close>

theorem updateHealthGoal_every_match_witness:
  "user (ready twins) = Some twins
   \<and> map id_goal (healthGoals twins) = [''1'', ''2'', ''1'']
   \<and> id_goal_opt renumber = Some ''9''
   \<and> (\<exists>p'. updateHealthGoal ''1'' renumber (ready twins) = ready p'
         \<and> healthGoals p' =
             [\<lparr>id_goal = ''9'', type_goal = ''water'', target = 8, current = 6, unit_goal = ''glasses''\<rparr>,
              \<lparr>id_goal = ''2'', type_goal = ''steps'', target = 10000, current = 7500, unit_goal = ''steps''\<rparr>,
              \<lparr>id_goal = ''9'', type_goal = ''sleep'', target = 8, current = 6, unit_goal = ''hours''\<rparr>])"
proof -
  have u: "user (ready twins) = Some twins" by (simp add: ready_def)
  have ids: "map id_goal (healthGoals twins) = [''1'', ''2'', ''1'']"
    by (simp add: twins_def)
  have j: "id_goal_opt renumber = Some ''9''" by (simp add: renumber_def)
  have len: "length (healthGoals twins) = 3" by (simp add: twins_def)
  from updateHealthGoal_every_match [OF u, of "''1''" renumber] obtain p' where
    s: "updateHealthGoal ''1'' renumber (ready twins) = (ready twins)\<lparr>user := Some p'\<rparr>"
    and l: "length (healthGoals p') = length (healthGoals twins)"
    and m: "\<forall>k<length (healthGoals twins). id_goal (healthGoals twins ! k) = ''1'' \<longrightarrow>
            patched (id_goal_opt renumber) (id_goal (healthGoals twins ! k)) (id_goal (healthGoals p' ! k))
          \<and> patched (type_goal_opt renumber) (type_goal (healthGoals twins ! k)) (type_goal (healthGoals p' ! k))
          \<and> patched (target_opt renumber) (target (healthGoals twins ! k)) (target (healthGoals p' ! k))
          \<and> patched (current_opt renumber) (current (healthGoals twins ! k)) (current (healthGoals p' ! k))
          \<and> patched (unit_goal_opt renumber) (unit_goal (healthGoals twins ! k)) (unit_goal (healthGoals p' ! k))"
    and o: "\<forall>k<length (healthGoals twins). id_goal (healthGoals twins ! k) \<noteq> ''1'' \<longrightarrow>
            healthGoals p' ! k = healthGoals twins ! k"
    by blast
  from m len have g0: "healthGoals p' ! 0 =
      \<lparr>id_goal = ''9'', type_goal = ''water'', target = 8, current = 6, unit_goal = ''glasses''\<rparr>"
    by (intro HealthGoal.equality) (simp_all add: twins_def renumber_def patched_def)
  from o len have g1: "healthGoals p' ! 1 =
      \<lparr>id_goal = ''2'', type_goal = ''steps'', target = 10000, current = 7500, unit_goal = ''steps''\<rparr>"
    by (simp add: twins_def)
  from m len have g2: "healthGoals p' ! 2 =
      \<lparr>id_goal = ''9'', type_goal = ''sleep'', target = 8, current = 6, unit_goal = ''hours''\<rparr>"
    by (intro HealthGoal.equality) (simp_all add: twins_def renumber_def patched_def)
  from l len have l3: "length (healthGoals p') = 3" by simp
  have "healthGoals p' = [healthGoals p' ! 0, healthGoals p' ! 1, healthGoals p' ! 2]"
    using l3 by (intro nth_equalityI) (auto simp: less_Suc_eq numeral_2_eq_2 numeral_3_eq_3)
  with g0 g1 g2 have g: "healthGoals p' =
             [\<lparr>id_goal = ''9'', type_goal = ''water'', target = 8, current = 6, unit_goal = ''glasses''\<rparr>,
              \<lparr>id_goal = ''2'', type_goal = ''steps'', target = 10000, current = 7500, unit_goal = ''steps''\<rparr>,
              \<lparr>id_goal = ''9'', type_goal = ''sleep'', target = 8, current = 6, unit_goal = ''hours''\<rparr>]"
    by simp
  have "updateHealthGoal ''1'' renumber (ready twins) = ready p'"
    using s by (simp add: ready_def)
  with g u ids j show ?thesis
    by (intro conjI exI [of _ p']) simp_all
qed

end
